theory Spec2Isabelle
  imports Complex_Main
begin

section \<open>Python arithmetic used by the projection engine\<close>

text \<open>
  The engine of \<^verbatim>\<open>investment_calculator.py\<close> computes with Python floats and
  numpy \<^verbatim>\<open>float64\<close> arrays. The embedding reads every float as a real number:
  rounding, overflow, infinities and NaN are not modelled. What Python raises is a value
  of \<open>py_error\<close>:
  \<^item> \<^verbatim>\<open>a / b\<close> on floats raises \<^verbatim>\<open>ZeroDivisionError\<close> when \<^verbatim>\<open>b == 0\<close>;
  \<^item> \<^verbatim>\<open>b ** e\<close> with an \<^verbatim>\<open>int\<close> exponent raises \<^verbatim>\<open>ZeroDivisionError\<close> when
    \<^verbatim>\<open>b == 0\<close> and \<^verbatim>\<open>e < 0\<close>;
  \<^item> \<^verbatim>\<open>np.zeros(n)\<close> raises \<^verbatim>\<open>ValueError\<close> when \<^verbatim>\<open>n < 0\<close>;
  \<^item> \<^verbatim>\<open>series.iloc[-1]\<close> raises \<^verbatim>\<open>IndexError\<close> on an empty series.
  A negative float raised to the power \<^verbatim>\<open>1/12\<close> is a complex number in Python, which
  the real-valued embedding cannot follow: it stops there with \<open>ComplexResult\<close>. That
  happens only for an annual rate below -100 percent.
\<close>

datatype py_error = ZeroDivisionError | ValueError | IndexError | ComplexResult

definition py_div :: "real \<Rightarrow> real \<Rightarrow> py_error + real" where
  "py_div a b = (if b = 0 then Inl ZeroDivisionError else Inr (a / b))"

definition py_pow_int :: "real \<Rightarrow> int \<Rightarrow> py_error + real" where
  "py_pow_int b e =
     (if 0 \<le> e then Inr (b ^ nat e)
      else if b = 0 then Inl ZeroDivisionError
      else Inr (1 / b ^ nat (- e)))"

definition iloc_last :: "real list \<Rightarrow> py_error + real" where
  "iloc_last xs = (if xs = [] then Inl IndexError else Inr (last xs))"

text \<open>
  \<^verbatim>\<open>monthly_rate = (1 + annual_return_rate/100) ** (1/12) - 1\<close>, the first statement
  of \<^verbatim>\<open>calculate_sip_returns\<close>, \<^verbatim>\<open>calculate_goal_based_sip\<close> and
  \<^verbatim>\<open>calculate_step_up_sip\<close>.
\<close>

definition monthly_rate_of :: "real \<Rightarrow> py_error + real" where
  "monthly_rate_of annual_return_rate =
     (if 1 + annual_return_rate / 100 < 0 then Inl ComplexResult
      else Inr ((1 + annual_return_rate / 100) powr (1 / 12) - 1))"

section \<open>The result tables\<close>

text \<open>
  Each simulator returns a \<^verbatim>\<open>pd.DataFrame\<close> built from a dict of columns; a record
  with one list per column.
\<close>

record lumpsum_frame =
  Year :: "int list"
  Investment_Value :: "real list"

record sip_frame =
  Month :: "nat list"
  Total_Investment :: "real list"
  Investment_Value :: "real list"

record step_up_frame = sip_frame +
  Monthly_SIP :: "real list"

section \<open>Periodic investment simulator\<close>

text \<open>
  One pass of the loop body of \<^verbatim>\<open>calculate_sip_returns\<close> for the index \<open>month\<close>,
  on the two arrays \<^verbatim>\<open>total_investment\<close> and \<^verbatim>\<open>investment_value\<close>.
\<close>

definition sip_month ::
  "real \<Rightarrow> real \<Rightarrow> real list \<times> real list \<Rightarrow> nat \<Rightarrow> real list \<times> real list" where
  "sip_month monthly_investment monthly_rate arrays month =
     (case arrays of (total_investment, investment_value) \<Rightarrow>
        if month = 0 then
          (total_investment[month := monthly_investment],
           investment_value[month := monthly_investment])
        else
          (total_investment[month := total_investment ! (month - 1) + monthly_investment],
           investment_value[month :=
              investment_value ! (month - 1) * (1 + monthly_rate) + monthly_investment]))"

definition calculate_sip_returns :: "real \<Rightarrow> real \<Rightarrow> int \<Rightarrow> py_error + sip_frame" where
  "calculate_sip_returns monthly_investment annual_return_rate time_years =
     (case monthly_rate_of annual_return_rate of
        Inl e \<Rightarrow> Inl e
      | Inr monthly_rate \<Rightarrow>
          if time_years * 12 < 0 then Inl ValueError
          else
            (let total_months = nat (time_years * 12);
                 zeros = replicate total_months 0;
                 arrays = foldl (sip_month monthly_investment monthly_rate)
                            (zeros, zeros) [0..<total_months]
             in Inr \<lparr>Month = [1..<total_months + 1],
                     Total_Investment = fst arrays,
                     Investment_Value = snd arrays\<rparr>))"

section \<open>Lump-sum simulator\<close>

text \<open>
  \<^verbatim>\<open>years = np.arange(0, time_years + 1)\<close> is empty for a negative duration; the
  exponent \<^verbatim>\<open>year\<close> is a non-negative integer, so \<^verbatim>\<open>**\<close> cannot raise.
\<close>

definition lumpsum_year :: "real \<Rightarrow> real \<Rightarrow> real list \<Rightarrow> nat \<times> int \<Rightarrow> real list" where
  "lumpsum_year investment_amount annual_return_rate investment_value iy =
     (case iy of (i, year) \<Rightarrow>
        investment_value[i := investment_amount * (1 + annual_return_rate / 100) ^ nat year])"

definition calculate_lumpsum_returns :: "real \<Rightarrow> real \<Rightarrow> int \<Rightarrow> lumpsum_frame" where
  "calculate_lumpsum_returns investment_amount annual_return_rate time_years =
     (let years = [0..time_years];
          investment_value = foldl (lumpsum_year investment_amount annual_return_rate)
                               (replicate (length years) 0) (enumerate 0 years)
      in \<lparr>Year = years, Investment_Value = investment_value\<rparr>)"

section \<open>Goal backsolver\<close>

text \<open>
  \<^verbatim>\<open>monthly_sip = target_amount / (((1 + monthly_rate) ** total_months - 1) / monthly_rate) / (1 + monthly_rate)\<close>:
  the power, then the inner division, then the two outer divisions from left to right.
\<close>

definition calculate_goal_based_sip :: "real \<Rightarrow> real \<Rightarrow> int \<Rightarrow> py_error + real" where
  "calculate_goal_based_sip target_amount annual_return_rate time_years =
     (case monthly_rate_of annual_return_rate of
        Inl e \<Rightarrow> Inl e
      | Inr monthly_rate \<Rightarrow>
          (let total_months = time_years * 12 in
           case py_pow_int (1 + monthly_rate) total_months of
             Inl e \<Rightarrow> Inl e
           | Inr growth \<Rightarrow>
               (case py_div (growth - 1) monthly_rate of
                  Inl e \<Rightarrow> Inl e
                | Inr annuity \<Rightarrow>
                    (case py_div target_amount annuity of
                       Inl e \<Rightarrow> Inl e
                     | Inr q \<Rightarrow> py_div q (1 + monthly_rate)))))"

text \<open>
  The goal tab of \<^verbatim>\<open>show_investment_calculator\<close> feeds the backsolver's result into the
  simulator with the same rate and duration and plots the series against the target;
  \<open>goal_round_trip\<close> is that composition, read at the last period as
  \<^verbatim>\<open>sip_results['Investment_Value'].iloc[-1]\<close> does.
\<close>

definition goal_round_trip :: "real \<Rightarrow> real \<Rightarrow> int \<Rightarrow> py_error + real" where
  "goal_round_trip target_amount annual_return_rate time_years =
     (case calculate_goal_based_sip target_amount annual_return_rate time_years of
        Inl e \<Rightarrow> Inl e
      | Inr monthly_sip \<Rightarrow>
          (case calculate_sip_returns monthly_sip annual_return_rate time_years of
             Inl e \<Rightarrow> Inl e
           | Inr sip_results \<Rightarrow> iloc_last (sip_frame.Investment_Value sip_results)))"

section \<open>Escalating-contribution simulator\<close>

text \<open>
  One pass of the loop body of \<^verbatim>\<open>calculate_step_up_sip\<close> on the three arrays
  \<^verbatim>\<open>monthly_investment\<close>, \<^verbatim>\<open>total_investment\<close> and \<^verbatim>\<open>investment_value\<close>.
  \<^verbatim>\<open>year = month // 12\<close> is a non-negative int, so the power cannot raise.
\<close>

definition step_up_month ::
  "real \<Rightarrow> real \<Rightarrow> real \<Rightarrow> real list \<times> real list \<times> real list \<Rightarrow> nat
     \<Rightarrow> real list \<times> real list \<times> real list" where
  "step_up_month initial_monthly_investment annual_step_up_rate monthly_rate arrays month =
     (case arrays of (monthly_investment, total_investment, investment_value) \<Rightarrow>
        (let year = month div 12;
             current_monthly_sip =
               (if month mod 12 = 0 \<and> 0 < month then
                  initial_monthly_investment * (1 + annual_step_up_rate / 100) ^ year
                else if month = 0 then initial_monthly_investment
                else monthly_investment ! (month - 1));
             monthly_investment' = monthly_investment[month := current_monthly_sip]
         in if month = 0 then
              (monthly_investment',
               total_investment[month := current_monthly_sip],
               investment_value[month := current_monthly_sip])
            else
              (monthly_investment',
               total_investment[month := total_investment ! (month - 1) + current_monthly_sip],
               investment_value[month :=
                  investment_value ! (month - 1) * (1 + monthly_rate) + current_monthly_sip])))"

definition calculate_step_up_sip ::
  "real \<Rightarrow> real \<Rightarrow> real \<Rightarrow> int \<Rightarrow> py_error + step_up_frame" where
  "calculate_step_up_sip initial_monthly_investment annual_step_up_rate annual_return_rate
       time_years =
     (case monthly_rate_of annual_return_rate of
        Inl e \<Rightarrow> Inl e
      | Inr monthly_rate \<Rightarrow>
          if time_years * 12 < 0 then Inl ValueError
          else
            (let total_months = nat (time_years * 12);
                 zeros = replicate total_months 0;
                 arrays = foldl (step_up_month initial_monthly_investment annual_step_up_rate
                                   monthly_rate)
                            (zeros, zeros, zeros) [0..<total_months]
             in Inr \<lparr>Month = [1..<total_months + 1],
                     Total_Investment = fst (snd arrays),
                     Investment_Value = snd (snd arrays),
                     Monthly_SIP = fst arrays\<rparr>))"

section \<open>Retirement corpus and real return\<close>

definition calculate_retirement_corpus :: "real \<Rightarrow> int \<Rightarrow> int \<Rightarrow> real \<Rightarrow> py_error + real" where
  "calculate_retirement_corpus monthly_expenses life_expectancy retirement_age inflation_rate =
     (let current_age = retirement_age;
          retirement_duration = life_expectancy - retirement_age
      in case py_pow_int (1 + inflation_rate / 100) (retirement_age - current_age) of
           Inl e \<Rightarrow> Inl e
         | Inr factor \<Rightarrow>
             (let monthly_expenses_at_retirement = monthly_expenses * factor;
                  annual_expenses_at_retirement = monthly_expenses_at_retirement * 12;
                  retirement_corpus = annual_expenses_at_retirement * 25
              in Inr retirement_corpus))"

text \<open>
  \<^verbatim>\<open>real_return_rate = (1 + annual_return_rate/100) / (1 + inflation_rate/100) - 1\<close>,
  computed in the SIP tab and again in the lump-sum tab of
  \<^verbatim>\<open>show_investment_calculator\<close>.
\<close>

definition real_return_rate :: "real \<Rightarrow> real \<Rightarrow> py_error + real" where
  "real_return_rate annual_return_rate inflation_rate =
     (case py_div (1 + annual_return_rate / 100) (1 + inflation_rate / 100) of
        Inl e \<Rightarrow> Inl e
      | Inr q \<Rightarrow> Inr (q - 1))"

section \<open>Closed forms of the loops\<close>

text \<open>
  Auxiliary functions for the loop invariants: the running total and the running value of
  a contribution schedule \<open>f\<close> (the amount paid in month \<open>j\<close>, counted from 0), the
  schedule of the escalating simulator, and an array whose first \<open>k\<close> cells are filled
  while the others still hold the zero of \<^verbatim>\<open>np.zeros\<close>.
\<close>

primrec contributed_upto :: "(nat \<Rightarrow> real) \<Rightarrow> nat \<Rightarrow> real" where
  "contributed_upto f 0 = f 0"
| "contributed_upto f (Suc n) = contributed_upto f n + f (Suc n)"

primrec value_upto :: "(nat \<Rightarrow> real) \<Rightarrow> real \<Rightarrow> nat \<Rightarrow> real" where
  "value_upto f m 0 = f 0"
| "value_upto f m (Suc n) = value_upto f m n * (1 + m) + f (Suc n)"

definition filled :: "nat \<Rightarrow> nat \<Rightarrow> (nat \<Rightarrow> real) \<Rightarrow> real list" where
  "filled N k g = map (\<lambda>j. if j < k then g j else 0) [0..<N]"

definition step_up_amount :: "real \<Rightarrow> real \<Rightarrow> nat \<Rightarrow> real" where
  "step_up_amount c0 s j = c0 * (1 + s / 100) ^ (j div 12)"

section \<open>Loop invariants\<close>

lemma filled_0: "filled N 0 g = replicate N 0"
  by (simp add: filled_def map_replicate_const)

lemma length_filled [simp]: "length (filled N k g) = N"
  by (simp add: filled_def)

lemma nth_filled: "j < N \<Longrightarrow> filled N k g ! j = (if j < k then g j else 0)"
  by (simp add: filled_def)

lemma filled_update:
  "k < N \<Longrightarrow> (filled N k g)[k := g k] = filled N (Suc k) g"
  by (rule nth_equalityI) (auto simp: nth_filled nth_list_update less_Suc_eq)

lemma filled_full: "filled N N g = map g [0..<N]"
  by (simp add: filled_def)

lemma sip_month_filled:
  assumes "k < N"
  shows "sip_month c m (filled N k (contributed_upto (\<lambda>_. c)), filled N k (value_upto (\<lambda>_. c) m)) k
       = (filled N (Suc k) (contributed_upto (\<lambda>_. c)), filled N (Suc k) (value_upto (\<lambda>_. c) m))"
proof (cases k)
  case 0
  with assms show ?thesis
    using filled_update [of 0 N "contributed_upto (\<lambda>_. c)"]
          filled_update [of 0 N "value_upto (\<lambda>_. c) m"]
    by (simp add: sip_month_def)
next
  case (Suc k')
  with assms show ?thesis
    using filled_update [of k N "contributed_upto (\<lambda>_. c)"]
          filled_update [of k N "value_upto (\<lambda>_. c) m"]
    by (simp add: sip_month_def nth_filled)
qed

lemma sip_loop_filled:
  "k \<le> N \<Longrightarrow>
   foldl (sip_month c m) (replicate N 0, replicate N 0) [0..<k]
     = (filled N k (contributed_upto (\<lambda>_. c)), filled N k (value_upto (\<lambda>_. c) m))"
proof (induction k)
  case 0
  show ?case by (simp add: filled_0)
next
  case (Suc k)
  then show ?case by (simp add: sip_month_filled)
qed


lemma div12_same_block: "Suc k mod 12 \<noteq> 0 \<Longrightarrow> Suc k div 12 = k div 12"
  by (simp add: div_Suc)

lemma step_up_current:
  assumes "k < N"
  shows "(if k mod 12 = 0 \<and> 0 < k then c0 * (1 + s / 100) ^ (k div 12)
          else if k = 0 then c0 else filled N k (step_up_amount c0 s) ! (k - 1))
         = step_up_amount c0 s k"
proof (cases k)
  case 0
  then show ?thesis by (simp add: step_up_amount_def)
next
  case (Suc k')
  show ?thesis
  proof (cases "k mod 12 = 0")
    case True
    with Suc show ?thesis by (simp add: step_up_amount_def)
  next
    case False
    have "filled N k (step_up_amount c0 s) ! k' = step_up_amount c0 s k'"
      using assms Suc by (simp add: nth_filled)
    moreover have "k div 12 = k' div 12"
      using False Suc div12_same_block [of k'] by simp
    ultimately show ?thesis
      using False Suc by (simp add: step_up_amount_def)
  qed
qed

lemma step_up_month_filled:
  assumes "k < N"
  shows "step_up_month c0 s m
           (filled N k (step_up_amount c0 s),
            filled N k (contributed_upto (step_up_amount c0 s)),
            filled N k (value_upto (step_up_amount c0 s) m)) k
       = (filled N (Suc k) (step_up_amount c0 s),
          filled N (Suc k) (contributed_upto (step_up_amount c0 s)),
          filled N (Suc k) (value_upto (step_up_amount c0 s) m))"
proof (cases k)
  case 0
  show ?thesis
    unfolding step_up_month_def Let_def prod.case step_up_current [OF assms]
    using 0 assms
          filled_update [of 0 N "step_up_amount c0 s"]
          filled_update [of 0 N "contributed_upto (step_up_amount c0 s)"]
          filled_update [of 0 N "value_upto (step_up_amount c0 s) m"]
    by simp
next
  case (Suc k')
  have prev: "filled N k (contributed_upto (step_up_amount c0 s)) ! (k - 1)
                = contributed_upto (step_up_amount c0 s) k'"
             "filled N k (value_upto (step_up_amount c0 s) m) ! (k - 1)
                = value_upto (step_up_amount c0 s) m k'"
    using Suc assms by (simp_all add: nth_filled)
  show ?thesis
    unfolding step_up_month_def Let_def prod.case step_up_current [OF assms] prev
    using Suc assms
          filled_update [of k N "step_up_amount c0 s"]
          filled_update [of k N "contributed_upto (step_up_amount c0 s)"]
          filled_update [of k N "value_upto (step_up_amount c0 s) m"]
    by simp
qed

lemma step_up_loop_filled:
  "k \<le> N \<Longrightarrow>
   foldl (step_up_month c0 s m) (replicate N 0, replicate N 0, replicate N 0) [0..<k]
     = (filled N k (step_up_amount c0 s),
        filled N k (contributed_upto (step_up_amount c0 s)),
        filled N k (value_upto (step_up_amount c0 s) m))"
proof (induction k)
  case 0
  show ?case by (simp add: filled_0)
next
  case (Suc k)
  then show ?case by (simp add: step_up_month_filled)
qed



section \<open>What the simulators return\<close>

lemma monthly_rate_of_eq:
  "- 100 \<le> r \<Longrightarrow> monthly_rate_of r = Inr ((1 + r / 100) powr (1 / 12) - 1)"
  by (simp add: monthly_rate_of_def)

lemma calculate_sip_returns_eq:
  assumes "- 100 \<le> r" "0 \<le> y"
  shows "calculate_sip_returns c r y =
           Inr \<lparr>Month = [1..<nat (12 * y) + 1],
                Total_Investment = map (contributed_upto (\<lambda>_. c)) [0..<nat (12 * y)],
                Investment_Value =
                  map (value_upto (\<lambda>_. c) ((1 + r / 100) powr (1 / 12) - 1)) [0..<nat (12 * y)]\<rparr>"
  using assms
  by (simp add: calculate_sip_returns_def monthly_rate_of_eq sip_loop_filled filled_full
        mult.commute Let_def del: upt_Suc)

lemma calculate_step_up_sip_eq:
  assumes "- 100 \<le> r" "0 \<le> y"
  shows "calculate_step_up_sip c0 s r y =
           Inr \<lparr>Month = [1..<nat (12 * y) + 1],
                Total_Investment = map (contributed_upto (step_up_amount c0 s)) [0..<nat (12 * y)],
                Investment_Value =
                  map (value_upto (step_up_amount c0 s) ((1 + r / 100) powr (1 / 12) - 1))
                    [0..<nat (12 * y)],
                Monthly_SIP = map (step_up_amount c0 s) [0..<nat (12 * y)]\<rparr>"
  using assms
  by (simp add: calculate_step_up_sip_def monthly_rate_of_eq step_up_loop_filled filled_full
        mult.commute Let_def del: upt_Suc)


lemma monthly_rate_of_zero: "monthly_rate_of 0 = Inr 0"
  by (simp add: monthly_rate_of_def)

lemma value_upto_zero_rate: "value_upto f 0 n = contributed_upto f n"
  by (induction n) simp_all

lemma contributed_upto_strict:
  assumes "\<And>j. 0 < f j" "i < j"
  shows "contributed_upto f i < contributed_upto f j"
  using assms(2)
proof (induction j)
  case 0
  then show ?case by simp
next
  case (Suc j)
  have "contributed_upto f j < contributed_upto f (Suc j)"
    using assms(1) [of "Suc j"] by simp
  with Suc show ?case
    by (cases "i = j") (auto simp: less_Suc_eq)
qed

lemma step_up_amount_pos: "0 < c0 \<Longrightarrow> 0 \<le> s \<Longrightarrow> 0 < step_up_amount c0 s j"
  by (simp add: step_up_amount_def)

lemma step_up_amount_no_step: "step_up_amount c0 0 = (\<lambda>_. c0)"
  by (simp add: step_up_amount_def fun_eq_iff)

section \<open>Periodic investment simulator: the series\<close>

text \<open>
  Claim C3. For a contribution \<open>c > 0\<close>, an annual rate \<open>r \<ge> 0\<close> and a duration of
  \<open>y \<ge> 1\<close> years, \<^verbatim>\<open>calculate_sip_returns\<close> returns a series of exactly \<open>12 y\<close>
  entries, numbered from 1; the first entry has contributed = value = \<open>c\<close>, and every
  later entry has contributed = previous contributed + \<open>c\<close> and
  value = previous value times \<open>1 + monthly_rate\<close> plus \<open>c\<close>, where
  \<open>monthly_rate = (1 + r/100)^(1/12) - 1\<close>. (List index \<open>n\<close> is period \<open>n + 1\<close>.)
\<close>

theorem sip_series_recurrence:
  assumes "0 < c" "0 \<le> r" "1 \<le> y"
  shows "\<exists>df. calculate_sip_returns c r y = Inr df
           \<and> length (Month df) = nat (12 * y)
           \<and> length (Total_Investment df) = nat (12 * y)
           \<and> length (sip_frame.Investment_Value df) = nat (12 * y)
           \<and> (\<forall>n. n < nat (12 * y) \<longrightarrow> Month df ! n = n + 1)
           \<and> Total_Investment df ! 0 = c
           \<and> sip_frame.Investment_Value df ! 0 = c
           \<and> (\<forall>n. 1 \<le> n \<and> n < nat (12 * y) \<longrightarrow>
                 Total_Investment df ! n = Total_Investment df ! (n - 1) + c
               \<and> sip_frame.Investment_Value df ! n =
                   sip_frame.Investment_Value df ! (n - 1)
                     * (1 + ((1 + r / 100) powr (1 / 12) - 1)) + c)"
proof -
  let ?N = "nat (12 * y)"
  let ?m = "(1 + r / 100) powr (1 / 12) - 1"
  have eq: "calculate_sip_returns c r y =
              Inr \<lparr>Month = [1..<?N + 1],
                   Total_Investment = map (contributed_upto (\<lambda>_. c)) [0..<?N],
                   Investment_Value = map (value_upto (\<lambda>_. c) ?m) [0..<?N]\<rparr>"
    using assms by (intro calculate_sip_returns_eq) simp_all
  have pos: "0 < ?N" using assms by simp
  have rec: "map (contributed_upto (\<lambda>_. c)) [0..<?N] ! n
               = map (contributed_upto (\<lambda>_. c)) [0..<?N] ! (n - 1) + c
           \<and> map (value_upto (\<lambda>_. c) ?m) [0..<?N] ! n
               = map (value_upto (\<lambda>_. c) ?m) [0..<?N] ! (n - 1) * (1 + ?m) + c"
    if H: "1 \<le> n \<and> n < ?N" for n
  proof -
    obtain k where k: "n = Suc k" using H by (cases n) auto
    then have "k < ?N" "Suc k < ?N" using H by simp_all
    then show ?thesis unfolding k by (simp del: upt_Suc)
  qed
  show ?thesis
    unfolding eq using pos rec by (simp del: upt_Suc)
qed

theorem sip_series_recurrence_witness:
  "(0::real) < 1000 \<and> (0::real) \<le> 12 \<and> (1::int) \<le> 1
   \<and> (\<exists>df. calculate_sip_returns 1000 12 1 = Inr df
          \<and> length (Month df) = 12
          \<and> Total_Investment df ! 0 = 1000
          \<and> Total_Investment df ! 1 = 2000
          \<and> sip_frame.Investment_Value df ! 1 = 1000 * (112 / 100) powr (1 / 12) + 1000)"
proof -
  obtain df where df: "calculate_sip_returns 1000 12 1 = Inr df"
      "length (Month df) = nat (12 * 1)"
      "Total_Investment df ! 0 = 1000"
      "sip_frame.Investment_Value df ! 0 = 1000"
      "\<forall>n. 1 \<le> n \<and> n < nat (12 * 1) \<longrightarrow>
            Total_Investment df ! n = Total_Investment df ! (n - 1) + 1000
          \<and> sip_frame.Investment_Value df ! n =
              sip_frame.Investment_Value df ! (n - 1)
                * (1 + ((1 + 12 / 100) powr (1 / 12) - 1)) + 1000"
    using sip_series_recurrence [of 1000 12 1] by auto
  from df(5) have "Total_Investment df ! 1 = Total_Investment df ! (1 - 1) + 1000
          \<and> sip_frame.Investment_Value df ! 1 =
              sip_frame.Investment_Value df ! (1 - 1)
                * (1 + ((1 + 12 / 100) powr (1 / 12) - 1)) + 1000"
    by simp
  with df(1-4) show ?thesis by simp
qed

section \<open>Retirement corpus: the result\<close>

text \<open>
  Claim C10. \<^verbatim>\<open>calculate_retirement_corpus\<close> returns 300 times the monthly expenses
  (monthly expenses times 12 times 25) whatever the life expectancy, the retirement age
  and the inflation rate are: the inflation exponent \<^verbatim>\<open>retirement_age - current_age\<close>
  is zero.
\<close>

theorem retirement_corpus_is_300_times_expenses:
  "calculate_retirement_corpus monthly_expenses life_expectancy retirement_age inflation_rate
     = Inr (300 * monthly_expenses)"
  by (simp add: calculate_retirement_corpus_def py_pow_int_def)

section \<open>Zero rate and monotone contributions\<close>

lemma contributed_upto_const: "contributed_upto (\<lambda>_. c) n = (real n + 1) * c"
  by (induction n) (simp_all add: algebra_simps)

text \<open>
  Claim C8. With an annual rate of 0 the monthly rate is exactly 0 and the series of
  \<^verbatim>\<open>calculate_sip_returns\<close> has, for every contribution \<open>c > 0\<close> and duration
  \<open>y \<ge> 1\<close>, value = contributed at each of its \<open>12 y\<close> periods, and the growth is
  linear: at period \<open>n + 1\<close> (list index \<open>n\<close>) both are \<open>(n + 1) c\<close>.
\<close>

theorem sip_zero_rate_linear:
  assumes "0 < c" "1 \<le> y"
  shows "monthly_rate_of 0 = Inr 0
       \<and> (\<exists>df. calculate_sip_returns c 0 y = Inr df
              \<and> length (sip_frame.Investment_Value df) = nat (12 * y)
              \<and> length (Total_Investment df) = nat (12 * y)
              \<and> (\<forall>n. n < nat (12 * y) \<longrightarrow>
                    sip_frame.Investment_Value df ! n = Total_Investment df ! n
                  \<and> Total_Investment df ! n = (real n + 1) * c
                  \<and> sip_frame.Investment_Value df ! n = (real n + 1) * c))"
proof -
  have "calculate_sip_returns c 0 y =
          Inr \<lparr>Month = [1..<nat (12 * y) + 1],
               Total_Investment = map (contributed_upto (\<lambda>_. c)) [0..<nat (12 * y)],
               Investment_Value = map (value_upto (\<lambda>_. c) 0) [0..<nat (12 * y)]\<rparr>"
    using assms calculate_sip_returns_eq [of 0 y c] by simp
  then show ?thesis
    by (simp add: monthly_rate_of_zero value_upto_zero_rate contributed_upto_const
          del: upt_Suc)
qed

theorem sip_zero_rate_linear_witness:
  "(0::real) < 500 \<and> (1::int) \<le> 2
   \<and> (\<exists>df. calculate_sip_returns 500 0 2 = Inr df
          \<and> length (sip_frame.Investment_Value df) = 24
          \<and> sip_frame.Investment_Value df ! 23 = Total_Investment df ! 23
          \<and> Total_Investment df ! 23 = 12000
          \<and> sip_frame.Investment_Value df ! 23 = 12000)"
proof -
  obtain df where d: "calculate_sip_returns 500 0 2 = Inr df"
      "length (sip_frame.Investment_Value df) = nat (12 * 2)"
      "\<forall>n. n < nat (12 * 2) \<longrightarrow>
            sip_frame.Investment_Value df ! n = Total_Investment df ! n
          \<and> Total_Investment df ! n = (real n + 1) * 500
          \<and> sip_frame.Investment_Value df ! n = (real n + 1) * 500"
    using sip_zero_rate_linear [of 500 2] by auto
  from spec [OF d(3), of 23]
  have "sip_frame.Investment_Value df ! 23 = Total_Investment df ! 23
      \<and> Total_Investment df ! 23 = 12000
      \<and> sip_frame.Investment_Value df ! 23 = 12000"
    by simp
  with d(1,2) show ?thesis by simp
qed

text \<open>
  Claim C7. For valid input (contribution \<open>> 0\<close>, rate \<open>\<ge> 0\<close>, step-up \<open>\<ge> 0\<close>,
  duration \<open>\<ge> 1\<close>) the cumulative contributed amount of the series of
  \<^verbatim>\<open>calculate_sip_returns\<close> and of \<^verbatim>\<open>calculate_step_up_sip\<close> never decreases from
  one period to a later one, and, the contribution of every period being positive,
  strictly increases.
\<close>

theorem contributed_monotone:
  assumes "0 < c" "0 \<le> r" "0 \<le> s" "1 \<le> y"
  shows "\<exists>d1 d2. calculate_sip_returns c r y = Inr d1
           \<and> calculate_step_up_sip c s r y = Inr d2
           \<and> length (Total_Investment d1) = nat (12 * y)
           \<and> length (Total_Investment d2) = nat (12 * y)
           \<and> (\<forall>i j. i < j \<and> j < nat (12 * y) \<longrightarrow>
                 Total_Investment d1 ! i \<le> Total_Investment d1 ! j
               \<and> Total_Investment d1 ! i < Total_Investment d1 ! j
               \<and> Total_Investment d2 ! i \<le> Total_Investment d2 ! j
               \<and> Total_Investment d2 ! i < Total_Investment d2 ! j)"
proof -
  let ?N = "nat (12 * y)"
  have r: "- 100 \<le> r" and y: "0 \<le> y" using assms by simp_all
  have mono1: "contributed_upto (\<lambda>_. c) i < contributed_upto (\<lambda>_. c) j" if "i < j" for i j
    using assms(1) that by (intro contributed_upto_strict) simp_all
  have mono2: "contributed_upto (step_up_amount c s) i < contributed_upto (step_up_amount c s) j"
    if "i < j" for i j
    using assms(1,3) that by (intro contributed_upto_strict) (simp_all add: step_up_amount_pos)
  have nth1: "map (contributed_upto (\<lambda>_. c)) [0..<?N] ! i
                < map (contributed_upto (\<lambda>_. c)) [0..<?N] ! j"
    if "i < j" "j < ?N" for i j
    using that mono1 [of i j] by (simp del: upt_Suc)
  have nth2: "map (contributed_upto (step_up_amount c s)) [0..<?N] ! i
                < map (contributed_upto (step_up_amount c s)) [0..<?N] ! j"
    if "i < j" "j < ?N" for i j
    using that mono2 [of i j] by (simp del: upt_Suc)
  show ?thesis
    unfolding calculate_sip_returns_eq [OF r y] calculate_step_up_sip_eq [OF r y]
    using nth1 nth2 by (auto simp del: upt_Suc intro: less_imp_le)
qed

theorem contributed_monotone_witness:
  "(0::real) < 1000 \<and> (0::real) \<le> 12 \<and> (0::real) \<le> 10 \<and> (1::int) \<le> 2
   \<and> (\<exists>d1 d2. calculate_sip_returns 1000 12 2 = Inr d1
          \<and> calculate_step_up_sip 1000 10 12 2 = Inr d2
          \<and> Total_Investment d1 ! 11 < Total_Investment d1 ! 12
          \<and> Total_Investment d2 ! 11 < Total_Investment d2 ! 12)"
proof -
  obtain d1 d2 where d: "calculate_sip_returns 1000 12 2 = Inr d1"
      "calculate_step_up_sip 1000 10 12 2 = Inr d2"
      "\<forall>i j. i < j \<and> j < nat (12 * 2) \<longrightarrow>
                 Total_Investment d1 ! i \<le> Total_Investment d1 ! j
               \<and> Total_Investment d1 ! i < Total_Investment d1 ! j
               \<and> Total_Investment d2 ! i \<le> Total_Investment d2 ! j
               \<and> Total_Investment d2 ! i < Total_Investment d2 ! j"
    using contributed_monotone [of 1000 12 10 2] by auto
  from d(3) have "Total_Investment d1 ! 11 < Total_Investment d1 ! 12
                \<and> Total_Investment d2 ! 11 < Total_Investment d2 ! 12"
    by simp
  with d(1,2) show ?thesis by simp
qed

section \<open>Escalating contributions\<close>

text \<open>
  Claim C6. With a step-up rate of 0, \<^verbatim>\<open>calculate_step_up_sip\<close> returns, for every
  initial contribution \<open>c0 > 0\<close>, rate \<open>r \<ge> 0\<close> and duration \<open>y \<ge> 1\<close>, the same
  period indices, cumulative contributed amounts and cumulative values as
  \<^verbatim>\<open>calculate_sip_returns\<close> on \<open>c0\<close>, \<open>r\<close>, \<open>y\<close>.
\<close>

theorem step_up_zero_is_sip:
  assumes "0 < c0" "0 \<le> r" "1 \<le> y"
  shows "\<exists>d1 d2. calculate_step_up_sip c0 0 r y = Inr d1
           \<and> calculate_sip_returns c0 r y = Inr d2
           \<and> length (Month d2) = nat (12 * y)
           \<and> Month d1 = Month d2
           \<and> Total_Investment d1 = Total_Investment d2
           \<and> sip_frame.Investment_Value d1 = sip_frame.Investment_Value d2"
proof -
  have r: "- 100 \<le> r" and y: "0 \<le> y" using assms by simp_all
  show ?thesis
    unfolding calculate_sip_returns_eq [OF r y] calculate_step_up_sip_eq [OF r y]
      step_up_amount_no_step
    by (simp del: upt_Suc)
qed

theorem step_up_zero_is_sip_witness:
  "(0::real) < 1000 \<and> (0::real) \<le> 12 \<and> (1::int) \<le> 3
   \<and> (\<exists>d1 d2. calculate_step_up_sip 1000 0 12 3 = Inr d1
          \<and> calculate_sip_returns 1000 12 3 = Inr d2
          \<and> length (Month d2) = 36
          \<and> Month d1 = Month d2
          \<and> Total_Investment d1 = Total_Investment d2
          \<and> sip_frame.Investment_Value d1 = sip_frame.Investment_Value d2)"
  using step_up_zero_is_sip [of 1000 12 3] by simp

text \<open>
  Claim C4. For an initial contribution \<open>c0 > 0\<close>, step-up rate \<open>s \<ge> 0\<close>, rate
  \<open>r \<ge> 0\<close> and duration \<open>y \<ge> 1\<close>, the contribution that
  \<^verbatim>\<open>calculate_step_up_sip\<close> records for the 1-based period \<open>p\<close> in \<open>1..12 y\<close> is
  \<open>c0 (1 + s/100)^floor((p - 1)/12)\<close>: periods 1 to 12 use \<open>c0\<close>, period 13 the first
  escalated amount. The cumulative value starts at the first contribution and then
  follows value = previous value times \<open>1 + monthly_rate\<close> plus the period's contribution.
\<close>

theorem step_up_schedule:
  assumes "0 < c0" "0 \<le> s" "0 \<le> r" "1 \<le> y"
  shows "\<exists>df. calculate_step_up_sip c0 s r y = Inr df
           \<and> length (Monthly_SIP df) = nat (12 * y)
           \<and> length (sip_frame.Investment_Value df) = nat (12 * y)
           \<and> (\<forall>p. 1 \<le> p \<and> p \<le> nat (12 * y) \<longrightarrow>
                 Month df ! (p - 1) = p
               \<and> Monthly_SIP df ! (p - 1) = c0 * (1 + s / 100) ^ ((p - 1) div 12))
           \<and> (\<forall>p. 1 \<le> p \<and> p \<le> 12 \<longrightarrow> Monthly_SIP df ! (p - 1) = c0)
           \<and> (\<forall>k. 1 \<le> k \<and> k < nat y \<longrightarrow>
                 Monthly_SIP df ! (12 * k) = c0 * (1 + s / 100) ^ k)
           \<and> sip_frame.Investment_Value df ! 0 = Monthly_SIP df ! 0
           \<and> (\<forall>n. 1 \<le> n \<and> n < nat (12 * y) \<longrightarrow>
                 sip_frame.Investment_Value df ! n =
                   sip_frame.Investment_Value df ! (n - 1)
                     * (1 + ((1 + r / 100) powr (1 / 12) - 1)) + Monthly_SIP df ! n)"
proof -
  let ?N = "nat (12 * y)"
  let ?m = "(1 + r / 100) powr (1 / 12) - 1"
  let ?f = "step_up_amount c0 s"
  have r: "- 100 \<le> r" and y: "0 \<le> y" using assms by simp_all
  have N: "12 \<le> ?N" using assms by simp
  have sched: "[1..<?N + 1] ! (p - 1) = p
             \<and> map ?f [0..<?N] ! (p - 1) = c0 * (1 + s / 100) ^ ((p - 1) div 12)"
    if H: "1 \<le> p \<and> p \<le> ?N" for p
  proof -
    have "p - 1 < ?N" using H by arith
    then show ?thesis using H by (simp add: step_up_amount_def nth_append del: upt_Suc)
  qed
  have first: "map ?f [0..<?N] ! (p - 1) = c0" if H: "1 \<le> p \<and> p \<le> 12" for p
  proof -
    have "p - 1 < ?N" "(p - 1) div 12 = 0" using H N by arith+
    then show ?thesis by (simp add: step_up_amount_def del: upt_Suc)
  qed
  have later: "map ?f [0..<?N] ! (12 * k) = c0 * (1 + s / 100) ^ k"
    if H: "1 \<le> k \<and> k < nat y" for k
  proof -
    have "12 * k < ?N" using H by arith
    then show ?thesis by (simp add: step_up_amount_def del: upt_Suc)
  qed
  have rec: "map (value_upto ?f ?m) [0..<?N] ! n
               = map (value_upto ?f ?m) [0..<?N] ! (n - 1) * (1 + ?m) + map ?f [0..<?N] ! n"
    if H: "1 \<le> n \<and> n < ?N" for n
  proof -
    obtain k where k: "n = Suc k" using H by (cases n) auto
    then have "k < ?N" "Suc k < ?N" using H by simp_all
    then show ?thesis unfolding k by (simp del: upt_Suc)
  qed
  have start: "map (value_upto ?f ?m) [0..<?N] ! 0 = map ?f [0..<?N] ! 0"
    using N by (simp del: upt_Suc)
  show ?thesis
    unfolding calculate_step_up_sip_eq [OF r y]
    using sched first later rec start by (simp del: upt_Suc)
qed

theorem step_up_schedule_witness:
  "(0::real) < 1000 \<and> (0::real) \<le> 10 \<and> (0::real) \<le> 12 \<and> (1::int) \<le> 2
   \<and> (\<exists>df. calculate_step_up_sip 1000 10 12 2 = Inr df
          \<and> length (Monthly_SIP df) = 24
          \<and> Monthly_SIP df ! 11 = 1000
          \<and> Monthly_SIP df ! 12 = 1100
          \<and> Monthly_SIP df ! 23 = 1100)"
proof -
  obtain df where d: "calculate_step_up_sip 1000 10 12 2 = Inr df"
      "length (Monthly_SIP df) = nat (12 * 2)"
      "\<forall>p. 1 \<le> p \<and> p \<le> nat (12 * 2) \<longrightarrow>
                 Month df ! (p - 1) = p
               \<and> Monthly_SIP df ! (p - 1) = 1000 * (1 + 10 / 100) ^ ((p - 1) div 12)"
    using step_up_schedule [of 1000 10 12 2] by auto
  from spec [OF d(3), of 12]
  have "Monthly_SIP df ! (12 - 1) = 1000 * (1 + 10 / 100) ^ ((12 - 1) div 12)"
    by simp
  moreover from spec [OF d(3), of 13]
  have "Monthly_SIP df ! (13 - 1) = 1000 * (1 + 10 / 100) ^ ((13 - 1) div 12)"
    by simp
  moreover from spec [OF d(3), of 24]
  have "Monthly_SIP df ! (24 - 1) = 1000 * (1 + 10 / 100) ^ ((24 - 1) div 12)"
    by simp
  ultimately show ?thesis using d(1,2) by simp
qed

section \<open>Lump-sum series\<close>

lemma upto_from_zero: "[0..y] = map int [0..<nat (y + 1)]"
proof (rule nth_equalityI)
  show "length [0..y] = length (map int [0..<nat (y + 1)])" by simp
next
  fix k assume "k < length [0..y]"
  then have k: "k < nat (y + 1)" by simp
  then have "0 + int k \<le> y" by arith
  from nth_upto [OF this] k show "[0..y] ! k = map int [0..<nat (y + 1)] ! k"
    by (simp del: upt_Suc)
qed

lemma lumpsum_loop_filled:
  "k \<le> N \<Longrightarrow>
   foldl (lumpsum_year p r) (replicate N 0) (map (\<lambda>i. (i, int i)) [0..<k])
     = filled N k (\<lambda>j. p * (1 + r / 100) ^ j)"
proof (induction k)
  case 0
  show ?case by (simp add: filled_0)
next
  case (Suc k)
  then show ?case
    using filled_update [of k N "\<lambda>j. p * (1 + r / 100) ^ j"]
    by (simp add: lumpsum_year_def)
qed

lemma calculate_lumpsum_returns_eq:
  "calculate_lumpsum_returns p r y =
     \<lparr>Year = map int [0..<nat (y + 1)],
      Investment_Value = map (\<lambda>j. p * (1 + r / 100) ^ j) [0..<nat (y + 1)]\<rparr>"
  unfolding calculate_lumpsum_returns_def Let_def upto_from_zero enumerate_map_upt
  by (simp add: lumpsum_loop_filled filled_full del: upt_Suc)

text \<open>
  Claim C5. For a principal \<open>p > 0\<close>, a rate \<open>r \<ge> 0\<close> and a duration \<open>y \<ge> 1\<close>,
  \<^verbatim>\<open>calculate_lumpsum_returns\<close> returns a series of exactly \<open>y + 1\<close> entries, for the
  years \<open>0..y\<close>, with value \<open>p (1 + r/100)^k\<close> at year \<open>k\<close>; the entry of year 0 is the
  principal, and with \<open>r = 0\<close> every entry is the principal.
\<close>

theorem lumpsum_series:
  assumes "0 < p" "0 \<le> r" "1 \<le> y"
  shows "length (Year (calculate_lumpsum_returns p r y)) = nat (y + 1)
       \<and> length (lumpsum_frame.Investment_Value (calculate_lumpsum_returns p r y)) = nat (y + 1)
       \<and> (\<forall>k. k \<le> nat y \<longrightarrow>
             Year (calculate_lumpsum_returns p r y) ! k = int k
           \<and> lumpsum_frame.Investment_Value (calculate_lumpsum_returns p r y) ! k
               = p * (1 + r / 100) ^ k)
       \<and> lumpsum_frame.Investment_Value (calculate_lumpsum_returns p r y) ! 0 = p
       \<and> (\<forall>k. k \<le> nat y \<longrightarrow>
             lumpsum_frame.Investment_Value (calculate_lumpsum_returns p 0 y) ! k = p)"
proof -
  have nth: "k < nat (y + 1)" if "k \<le> nat y" for k
    using that assms(3) by arith
  have zero: "0 < nat (y + 1)" using assms(3) by simp
  show ?thesis
    unfolding calculate_lumpsum_returns_eq using nth zero by (simp del: upt_Suc)
qed

theorem lumpsum_series_witness:
  "(0::real) < 100000 \<and> (0::real) \<le> 10 \<and> (1::int) \<le> 5
   \<and> length (lumpsum_frame.Investment_Value (calculate_lumpsum_returns 100000 10 5)) = 6
   \<and> lumpsum_frame.Investment_Value (calculate_lumpsum_returns 100000 10 5) ! 5
        = 16105100000 / 100000
   \<and> lumpsum_frame.Investment_Value (calculate_lumpsum_returns 100000 0 5) ! 5 = 100000"
proof -
  have h: "(0::real) < 100000" "(0::real) \<le> 10" "(1::int) \<le> 5" by simp_all
  note t = lumpsum_series [OF h]
  from t have "lumpsum_frame.Investment_Value (calculate_lumpsum_returns 100000 10 5) ! 5
                 = 100000 * (1 + 10 / 100) ^ 5"
    by simp
  moreover from t
  have "lumpsum_frame.Investment_Value (calculate_lumpsum_returns 100000 0 5) ! 5 = 100000"
    by simp
  ultimately show ?thesis using t by (simp add: power_divide)
qed

section \<open>Goal backsolver: closed form, round trip and zero rate\<close>

lemma monthly_rate_pos: "0 < r \<Longrightarrow> 0 < (1 + r / 100) powr (1 / 12) - (1::real)"
  using gr_one_powr [of "1 + r / 100" "1 / 12"] by simp

lemma value_upto_const:
  "m \<noteq> 0 \<Longrightarrow> value_upto (\<lambda>_. c) m k = c * (((1 + m) ^ Suc k - 1) / m)"
proof (induction k)
  case 0
  then show ?case by simp
next
  case (Suc k)
  have step: "c * ((P - 1) / m) * (1 + m) + c = c * ((P * (1 + m) - 1) / m)" for P
    using Suc.prems by (simp add: field_simps)
  have "value_upto (\<lambda>_. c) m (Suc k) = c * (((1 + m) ^ Suc k - 1) / m) * (1 + m) + c"
    using Suc by simp
  also have "\<dots> = c * (((1 + m) ^ Suc k * (1 + m) - 1) / m)"
    by (rule step)
  finally show ?case by (simp add: mult.commute)
qed

lemma calculate_goal_based_sip_eq:
  assumes "0 < r" "1 \<le> y"
  shows "calculate_goal_based_sip T r y =
           Inr (T / (((1 + ((1 + r / 100) powr (1 / 12) - 1)) ^ nat (12 * y) - 1)
                       / ((1 + r / 100) powr (1 / 12) - 1))
                  / (1 + ((1 + r / 100) powr (1 / 12) - 1)))"
proof -
  let ?m = "(1 + r / 100) powr (1 / 12) - 1"
  let ?N = "nat (12 * y)"
  have m: "0 < ?m" using assms(1) by (rule monthly_rate_pos)
  have N: "0 < ?N" using assms(2) by simp
  have rate: "monthly_rate_of r = Inr ?m"
    using assms(1) by (intro monthly_rate_of_eq) simp
  have pow: "py_pow_int (1 + ?m) (y * 12) = Inr ((1 + ?m) ^ ?N)"
    using assms(2) by (simp add: py_pow_int_def mult.commute)
  have "1 < (1 + ?m) ^ ?N"
    using m N by (intro one_less_power) simp_all
  then have A: "((1 + ?m) ^ ?N - 1) / ?m \<noteq> 0"
    using m by simp
  have d1: "py_div ((1 + ?m) ^ ?N - 1) ?m = Inr (((1 + ?m) ^ ?N - 1) / ?m)"
    using m by (simp add: py_div_def)
  have d2: "py_div T (((1 + ?m) ^ ?N - 1) / ?m) = Inr (T / (((1 + ?m) ^ ?N - 1) / ?m))"
    using A by (simp only: py_div_def if_False)
  have "1 + ?m \<noteq> 0" using m by linarith
  then have d3: "py_div (T / (((1 + ?m) ^ ?N - 1) / ?m)) (1 + ?m)
              = Inr (T / (((1 + ?m) ^ ?N - 1) / ?m) / (1 + ?m))"
    by (simp only: py_div_def if_False)
  show ?thesis
    unfolding calculate_goal_based_sip_def Let_def rate pow d1 d2 d3 sum.case ..
qed

lemma goal_round_trip_eq:
  assumes "0 < r" "1 \<le> y"
  shows "goal_round_trip T r y = Inr (T / (1 + r / 100) powr (1 / 12))"
proof -
  let ?m = "(1 + r / 100) powr (1 / 12) - 1"
  let ?N = "nat (12 * y)"
  let ?A = "((1 + ?m) ^ ?N - 1) / ?m"
  let ?c = "T / ?A / (1 + ?m)"
  have m: "0 < ?m" using assms(1) by (rule monthly_rate_pos)
  have N: "0 < ?N" using assms(2) by simp
  have "1 < (1 + ?m) ^ ?N"
    using m N by (intro one_less_power) simp_all
  then have A: "?A \<noteq> 0" using m by simp
  have sip: "calculate_sip_returns ?c r y =
          Inr \<lparr>Month = [1..<?N + 1],
               Total_Investment = map (contributed_upto (\<lambda>_. ?c)) [0..<?N],
               Investment_Value = map (value_upto (\<lambda>_. ?c) ?m) [0..<?N]\<rparr>"
    using assms by (intro calculate_sip_returns_eq) simp_all
  have ne: "map (value_upto (\<lambda>_. ?c) ?m) [0..<?N] \<noteq> []" using N by simp
  have "last (map (value_upto (\<lambda>_. ?c) ?m) [0..<?N]) = value_upto (\<lambda>_. ?c) ?m (?N - 1)"
    using N by (simp add: last_map last_upt del: upt_Suc)
  also have "\<dots> = ?c * (((1 + ?m) ^ Suc (?N - 1) - 1) / ?m)"
    using m by (intro value_upto_const) simp
  also have "Suc (?N - 1) = ?N" using N by simp
  also have "?c * ?A = T / (1 + ?m)"
  proof -
    have "T / a / b * a = T / b" if "a \<noteq> 0" for a b :: real
      using that by simp
    from this [OF A] show ?thesis .
  qed
  finally have last: "last (map (value_upto (\<lambda>_. ?c) ?m) [0..<?N]) = T / (1 + ?m)" .
  have il: "iloc_last (map (value_upto (\<lambda>_. ?c) ?m) [0..<?N]) = Inr (T / (1 + ?m))"
    using ne last by (simp only: iloc_last_def if_False)
  have "goal_round_trip T r y = Inr (T / (1 + ?m))"
    by (simp only: goal_round_trip_def calculate_goal_based_sip_eq [OF assms] sip sum.case
          sip_frame.select_convs il)
  then show ?thesis by simp
qed

lemma root12_of_power:
  assumes "0 < x"
  shows "(x ^ 12) powr (1 / 12) = (x::real)"
proof -
  have "(x ^ 12) powr (1 / 12) = (x powr 12) powr (1 / 12)"
    using assms powr_realpow [of x 12] by simp
  also have "\<dots> = x powr 1" by (simp add: powr_powr)
  finally show ?thesis using assms by simp
qed

lemma root12_of_112_lower: "(10091 / 10000 :: real) < (112 / 100) powr (1 / 12)"
proof -
  have lt: "((10091 / 10000 :: real) ^ 12) powr (1 / 12) < (112 / 100) powr (1 / 12)"
    by (rule powr_less_mono2) (simp_all add: power_divide)
  have "0 < (10091 / 10000 :: real)" by simp
  from root12_of_power [OF this] lt show ?thesis by (simp only:)
qed


text \<open>
  Claim C1, on the code. The claim asks that the contribution returned by
  \<^verbatim>\<open>calculate_goal_based_sip\<close> for a target \<open>T\<close>, fed back into
  \<^verbatim>\<open>calculate_sip_returns\<close> with the same rate and duration, ends within a relative
  \<open>10\<^sup>-\<^sup>6\<close> of \<open>T\<close>. For the target 1000000 at 12 percent over 10 years the final
  value is \<open>1000000 / 1.12^(1/12)\<close>, more than 9000 below the target: the backsolver
  divides by one more factor \<open>1 + monthly_rate\<close> than the simulator accrues.
\<close>

theorem goal_round_trip_misses_target:
  "goal_round_trip 1000000 12 10 = Inr (1000000 / (1 + 12 / 100) powr (1 / 12))
   \<and> 1000000 / (1 + 12 / 100) powr (1 / 12) < (1000000 - 9000 :: real)"
proof -
  have r: "(0::real) < 12" and y: "(1::int) \<le> 10" by simp_all
  have run: "goal_round_trip 1000000 12 10 = Inr (1000000 / (1 + 12 / 100) powr (1 / 12))"
    by (rule goal_round_trip_eq [OF r y])
  let ?x = "(112 / 100 :: real) powr (1 / 12)"
  have low: "10091 / 10000 < ?x" by (rule root12_of_112_lower)
  then have pos: "0 < ?x" by linarith
  have "1000000 < 991000 * ?x" using low by linarith
  then have "1000000 / ?x < 991000"
    using pos by (simp add: pos_divide_less_eq)
  then have "1000000 / (1 + 12 / 100) powr (1 / 12) < (1000000 - 9000 :: real)"
    by simp
  with run show ?thesis by (simp only: simp_thms)
qed

text \<open>
  Claim C2, as the code has it. For a target \<open>T > 0\<close> and a duration \<open>y \<ge> 1\<close>,
  \<^verbatim>\<open>calculate_goal_based_sip\<close> with an annual rate of 0 raises
  \<^verbatim>\<open>ZeroDivisionError\<close>: the monthly rate is 0 and the divisor
  \<open>((1 + monthly_rate)^n - 1) / monthly_rate\<close> is evaluated as written, with no special
  case. For every rate \<open>r > 0\<close> no division fails and the call returns
  \<open>T / (((1 + monthly_rate)^n - 1) / monthly_rate) / (1 + monthly_rate)\<close> with \<open>n = 12 y\<close>.
\<close>

theorem goal_sip_zero_rate_raises:
  assumes "0 < T" "1 \<le> y" "0 \<le> r"
  shows "calculate_goal_based_sip T r y =
           (if r = 0 then Inl ZeroDivisionError
            else Inr (T / (((1 + ((1 + r / 100) powr (1 / 12) - 1)) ^ nat (12 * y) - 1)
                             / ((1 + r / 100) powr (1 / 12) - 1))
                        / (1 + ((1 + r / 100) powr (1 / 12) - 1))))"
proof (cases "r = 0")
  case True
  have "calculate_goal_based_sip T 0 y = Inl ZeroDivisionError"
    using assms(2)
    by (simp add: calculate_goal_based_sip_def monthly_rate_of_zero py_pow_int_def py_div_def)
  with True show ?thesis by simp
next
  case False
  then have "0 < r" using assms(3) by simp
  from calculate_goal_based_sip_eq [OF this assms(2)] False show ?thesis by simp
qed

theorem goal_sip_zero_rate_raises_witness:
  "(0::real) < 1200 \<and> (1::int) \<le> 1 \<and> (0::real) \<le> 0
   \<and> calculate_goal_based_sip 1200 0 1 = Inl ZeroDivisionError"
  using goal_sip_zero_rate_raises [of 1200 1 0] by simp

theorem goal_sip_zero_rate_counterexample:
  "calculate_goal_based_sip 1200 0 1 = Inl ZeroDivisionError
   \<and> calculate_goal_based_sip 1200 0 1 \<noteq> Inr (1200 / 12)"
  by (simp add: calculate_goal_based_sip_def monthly_rate_of_def py_pow_int_def py_div_def)

section \<open>Real return\<close>

text \<open>
  Claim C9. The real annual return that \<^verbatim>\<open>show_investment_calculator\<close> computes from
  a nominal rate \<open>r\<close> and an inflation rate \<open>i\<close> is \<open>(1 + r/100) / (1 + i/100) - 1\<close>, a
  decimal fraction, that is \<open>(r - i) / (100 + i)\<close>; for \<open>r = 12\<close> and \<open>i = 6\<close> it is
  \<open>3/53\<close>, which is 0.0566 to four decimal places. (The inflation rate is not -100,
  where the division raises.)
\<close>

theorem real_return_formula:
  assumes "i \<noteq> - 100"
  shows "real_return_rate r i = Inr ((1 + r / 100) / (1 + i / 100) - 1)
       \<and> real_return_rate r i = Inr ((r - i) / (100 + i))
       \<and> real_return_rate 12 6 = Inr (3 / 53)
       \<and> \<bar>3 / 53 - 566 / 10000\<bar> < (1 / 100000 :: real)"
proof -
  have nz: "1 + i / 100 \<noteq> 0" "100 + i \<noteq> 0" using assms by auto
  have a: "real_return_rate r i = Inr ((1 + r / 100) / (1 + i / 100) - 1)"
    using nz by (simp add: real_return_rate_def py_div_def)
  have b: "(1 + r / 100) / (1 + i / 100) - 1 = (r - i) / (100 + i)"
    using nz by (simp add: field_simps)
  have c: "real_return_rate 12 6 = Inr (3 / 53)"
    by (simp add: real_return_rate_def py_div_def)
  show ?thesis using a b c by simp
qed

theorem real_return_formula_witness:
  "(6::real) \<noteq> - 100
   \<and> real_return_rate 12 6 = Inr ((1 + 12 / 100) / (1 + 6 / 100) - 1)
   \<and> real_return_rate 12 6 = Inr (3 / 53)"
  using real_return_formula [of 6 12] by simp

end
